theory Spec2Isabelle
  imports Main
begin

section \<open>Data model of create_vps.py\<close>

text \<open>
  The provider answers every list call with a Python dict from an id to a dict of
  attributes. Iteration over \<^verbatim>\<open>d.items()\<close> follows the dict's order, so a dict is an
  association list here: the order of the pairs is the iteration order. Attribute values
  are the provider's JSON strings.
\<close>

type_synonym details = "(string \<times> string) list"

type_synonym pydict = "(string \<times> details) list"

text \<open>
  The two exceptions of the module, and the three Python raises on its paths: a missing
  key of a dict, a local variable read before any assignment, a subscript on None.
\<close>

datatype error =
    MaxServerAlreadyRunning string
  | GenericMissingAttribute string
  | KeyError string
  | UnboundLocalError string
  | TypeError string

text \<open>A local variable of a function: not yet assigned, or holding a value.\<close>

datatype 'a local_var = Unbound | Bound 'a

definition TARGET_OS :: string where
  "TARGET_OS = ''Debian 10 x64 (buster)''"

definition TARGET_PLAN_PRICE :: string where
  "TARGET_PLAN_PRICE = ''5.00''"

definition TARGET_DATACENTER :: string where
  "TARGET_DATACENTER = ''Toronto''"

definition HOSTNAME :: string where
  "HOSTNAME = ''bgp-coldnorthadmin''"

definition TARGET_SSHKEY :: string where
  "TARGET_SSHKEY = ''bgp-coldnorthadmin''"

text \<open>\<^verbatim>\<open>d[k]\<close> on a dict: KeyError when the key is missing.\<close>

definition getitem :: "details \<Rightarrow> string \<Rightarrow> error + string" where
  "getitem d k = (case map_of d k of None \<Rightarrow> Inl (KeyError k) | Some v \<Rightarrow> Inr v)"

text \<open>
  \<^verbatim>\<open>v[k]\<close> on a value that is a dict or None (\<open>None\<close> is Python's None): TypeError on
  None.
\<close>

definition subscript :: "details option \<Rightarrow> string \<Rightarrow> error + string" where
  "subscript v k =
     (case v of
        None \<Rightarrow> Inl (TypeError ''NoneType object is not subscriptable'')
      | Some d \<Rightarrow> getitem d k)"

section \<open>The resolvers and the quota guard\<close>

definition check_return_value :: "'a option \<Rightarrow> string \<Rightarrow> error + unit" where
  "check_return_value v message =
     (if v = None then Inl (GenericMissingAttribute message) else Inr ())"

definition missing_message :: "string \<Rightarrow> string" where
  "missing_message target =
     ''We tried to find: '' @ target @ '' and nothing matched from Vultr''"

definition get_limit_running_servers :: "pydict \<Rightarrow> error + bool" where
  "get_limit_running_servers servers_dict =
     (if length servers_dict \<ge> 1
      then Inl (MaxServerAlreadyRunning ''Maximum servers currently running'')
      else Inr True)"

text \<open>
  The four resolvers share one loop shape:
  \<^verbatim>\<open>for item in d.items(): if item[1][attr] == target: var = item[1]\<close>.
  \<open>scan_items attr target d var\<close> runs it from the binding \<open>var\<close> of the local
  variable and returns its binding after the loop, or the KeyError of the first
  candidate without the attribute. There is no break: every item is visited.
\<close>

fun scan_items ::
  "string \<Rightarrow> string \<Rightarrow> pydict \<Rightarrow> details option local_var
     \<Rightarrow> error + details option local_var" where
  "scan_items attr target [] var = Inr var"
| "scan_items attr target ((item_id, item_details) # rest) var =
     (case getitem item_details attr of
        Inl e \<Rightarrow> Inl e
      | Inr v \<Rightarrow>
          scan_items attr target rest
            (if v = target then Bound (Some item_details) else var))"

text \<open>
  After the loop each resolver evaluates \<^verbatim>\<open>check_return_value(var, message)\<close> and
  returns \<^verbatim>\<open>var\<close>. Reading an unassigned local raises UnboundLocalError before
  \<^verbatim>\<open>check_return_value\<close> is entered.
\<close>

definition check_and_return ::
  "string \<Rightarrow> string \<Rightarrow> details option local_var \<Rightarrow> error + details option" where
  "check_and_return var_name target var =
     (case var of
        Unbound \<Rightarrow> Inl (UnboundLocalError var_name)
      | Bound v \<Rightarrow>
          (case check_return_value v (missing_message target) of
             Inl e \<Rightarrow> Inl e
           | Inr _ \<Rightarrow> Inr v))"

text \<open>\<^verbatim>\<open>get_ssh_key\<close> starts from \<^verbatim>\<open>target_ssh_key = None\<close>.\<close>

definition get_ssh_key :: "pydict \<Rightarrow> error + details option" where
  "get_ssh_key ssh_keys_dict =
     (case scan_items ''name'' TARGET_SSHKEY ssh_keys_dict (Bound None) of
        Inl e \<Rightarrow> Inl e
      | Inr target_ssh_key \<Rightarrow>
          check_and_return ''target_ssh_key'' TARGET_SSHKEY target_ssh_key)"

text \<open>\<^verbatim>\<open>get_plan\<close> starts from \<^verbatim>\<open>target_plan = None\<close>.\<close>

definition get_plan :: "pydict \<Rightarrow> error + details option" where
  "get_plan plans_dict =
     (case scan_items ''price_per_month'' TARGET_PLAN_PRICE plans_dict (Bound None) of
        Inl e \<Rightarrow> Inl e
      | Inr target_plan \<Rightarrow>
          check_and_return ''target_plan'' TARGET_PLAN_PRICE target_plan)"

text \<open>\<^verbatim>\<open>get_os\<close> has no assignment to \<^verbatim>\<open>target_os\<close> before its loop.\<close>

definition get_os :: "pydict \<Rightarrow> error + details option" where
  "get_os os_dict =
     (case scan_items ''name'' TARGET_OS os_dict Unbound of
        Inl e \<Rightarrow> Inl e
      | Inr target_os \<Rightarrow> check_and_return ''target_os'' TARGET_OS target_os)"

text \<open>
  \<^verbatim>\<open>get_datacenter\<close> has no assignment to \<^verbatim>\<open>target_datacenter\<close> before its loop.
\<close>

definition get_datacenter :: "pydict \<Rightarrow> error + details option" where
  "get_datacenter regions_dict =
     (case scan_items ''name'' TARGET_DATACENTER regions_dict Unbound of
        Inl e \<Rightarrow> Inl e
      | Inr target_datacenter \<Rightarrow>
          check_and_return ''target_datacenter'' TARGET_DATACENTER target_datacenter)"

section \<open>The provider client and the effects of a run\<close>

text \<open>
  The provider is an external collaborator. Its answers are parameters of a run:
  \<open>server_responses c n\<close> is what the \<open>n\<close>-th call of \<^verbatim>\<open>server.list()\<close> returns (the
  provider changes the instances between calls), the other four lists are fixed.
  Transport failures of the client library are outside the model: every call answers.
\<close>

record client =
  server_responses :: "nat \<Rightarrow> pydict"
  plans :: pydict
  oses :: pydict
  regions :: pydict
  sshkeys :: pydict

text \<open>
  What a run does to the outside: the calls it makes, in order (provider calls and
  \<^verbatim>\<open>time.sleep\<close>), the lines it prints, and how many times it has fetched the
  instance list.
\<close>

datatype call =
    ServerList
  | PlansList
  | OsList
  | RegionsList
  | SshkeyList
  | ServerCreate string string string details
  | Sleep nat

record world =
  calls :: "call list"
  stdout :: "string list"
  fetched :: nat

definition print_line :: "string \<Rightarrow> world \<Rightarrow> world" where
  "print_line s w = w\<lparr>stdout := stdout w @ [s]\<rparr>"

definition sleep :: "nat \<Rightarrow> world \<Rightarrow> world" where
  "sleep n w = w\<lparr>calls := calls w @ [Sleep n]\<rparr>"

definition server_list :: "client \<Rightarrow> world \<Rightarrow> pydict \<times> world" where
  "server_list c w =
     (server_responses c (fetched w),
      w\<lparr>calls := calls w @ [ServerList], fetched := Suc (fetched w)\<rparr>)"

definition plans_list :: "client \<Rightarrow> world \<Rightarrow> pydict \<times> world" where
  "plans_list c w = (plans c, w\<lparr>calls := calls w @ [PlansList]\<rparr>)"

definition os_list :: "client \<Rightarrow> world \<Rightarrow> pydict \<times> world" where
  "os_list c w = (oses c, w\<lparr>calls := calls w @ [OsList]\<rparr>)"

definition regions_list :: "client \<Rightarrow> world \<Rightarrow> pydict \<times> world" where
  "regions_list c w = (regions c, w\<lparr>calls := calls w @ [RegionsList]\<rparr>)"

definition sshkey_list :: "client \<Rightarrow> world \<Rightarrow> pydict \<times> world" where
  "sshkey_list c w = (sshkeys c, w\<lparr>calls := calls w @ [SshkeyList]\<rparr>)"

definition server_create ::
  "string \<Rightarrow> string \<Rightarrow> string \<Rightarrow> details \<Rightarrow> world \<Rightarrow> world" where
  "server_create dcid vpsplanid osid params w =
     w\<lparr>calls := calls w @ [ServerCreate dcid vpsplanid osid params]\<rparr>"

section \<open>The readiness poller\<close>

definition no_servers_message :: string where
  "no_servers_message = ''There are no servers currently running or shutdown''"

definition ready_message :: string where
  "ready_message = ''Server is Ready!''"

definition expecting_message :: "string \<Rightarrow> string \<Rightarrow> string" where
  "expecting_message status state =
     ''Expecting STATUS \"ACTIVE\" and SERVER_STATE \"OK\" but Vultr returned: ''
       @ status @ '' and '' @ state"

text \<open>
  The condition of line 162,
  \<^verbatim>\<open>details['status'] != 'active' or details['server_state'] != 'ok'\<close>: the right
  operand is read only when the left one is false.
\<close>

definition not_ready :: "details \<Rightarrow> error + bool" where
  "not_ready server_details =
     (case getitem server_details ''status'' of
        Inl e \<Rightarrow> Inl e
      | Inr status \<Rightarrow>
          if status \<noteq> ''active'' then Inr True
          else (case getitem server_details ''server_state'' of
                  Inl e \<Rightarrow> Inl e
                | Inr state \<Rightarrow> Inr (state \<noteq> ''ok'')))"

text \<open>The line printed at 163: both attributes are read again for the format.\<close>

definition expecting_line :: "details \<Rightarrow> error + string" where
  "expecting_line server_details =
     (case getitem server_details ''status'' of
        Inl e \<Rightarrow> Inl e
      | Inr status \<Rightarrow>
          (case getitem server_details ''server_state'' of
             Inl e \<Rightarrow> Inl e
           | Inr state \<Rightarrow> Inr (expecting_message status state)))"

text \<open>
  The for loop of lines 159 to 165 over the fetched instances, from the current value
  of \<^verbatim>\<open>server_state\<close>. It has no break and no assignment of False.
\<close>

fun scan_servers :: "pydict \<Rightarrow> bool \<Rightarrow> world \<Rightarrow> (error + bool) \<times> world" where
  "scan_servers [] server_state w = (Inr server_state, w)"
| "scan_servers ((server_id, server_details) # rest) server_state w =
     (case getitem server_details ''label'' of
        Inl e \<Rightarrow> (Inl e, w)
      | Inr label \<Rightarrow>
          if label = HOSTNAME then
            (case not_ready server_details of
               Inl e \<Rightarrow> (Inl e, w)
             | Inr True \<Rightarrow>
                 (case expecting_line server_details of
                    Inl e \<Rightarrow> (Inl e, w)
                  | Inr line \<Rightarrow> scan_servers rest server_state (print_line line w))
             | Inr False \<Rightarrow> scan_servers rest True w)
          else scan_servers rest server_state w)"

text \<open>
  One iteration of the while loop (lines 152 to 165), from the locals
  \<^verbatim>\<open>server_state\<close> and \<^verbatim>\<open>timeout\<close>: sleep, fetch, then either count an empty list or
  scan a non-empty one.
\<close>

definition poll_body ::
  "client \<Rightarrow> bool \<Rightarrow> nat \<Rightarrow> world \<Rightarrow> (error + bool \<times> nat) \<times> world" where
  "poll_body c server_state timeout w =
     (let w1 = sleep 2 w;
          (servers_dict, w2) = server_list c w1
      in if length servers_dict = 0
         then (Inr (server_state, timeout + 1), print_line no_servers_message w2)
         else (case scan_servers servers_dict server_state w2 of
                 (Inl e, w3) \<Rightarrow> (Inl e, w3)
               | (Inr server_state', w3) \<Rightarrow> (Inr (server_state', timeout), w3)))"

text \<open>
  The while loop with its else clause (lines 151 to 167). The loop has no break, so the
  else clause runs whenever the condition is found false. The loop may run forever:
  \<open>None\<close> is a run that never leaves it.
\<close>

partial_function (option) poll_loop ::
  "client \<Rightarrow> bool \<Rightarrow> nat \<Rightarrow> world \<Rightarrow> ((error + bool \<times> nat) \<times> world) option" where
  "poll_loop c server_state timeout w =
     (if \<not> server_state \<and> timeout < 10 then
        (case poll_body c server_state timeout w of
           (Inl e, w') \<Rightarrow> Some (Inl e, w')
         | (Inr (server_state', timeout'), w') \<Rightarrow> poll_loop c server_state' timeout' w')
      else Some (Inr (server_state, timeout), print_line ready_message w))"

text \<open>
  \<^verbatim>\<open>poll_server\<close> starts the loop from \<^verbatim>\<open>server_state = False\<close> and
  \<^verbatim>\<open>timeout = 0\<close> and returns nothing.
\<close>

definition poll_server :: "client \<Rightarrow> world \<Rightarrow> ((error + unit) \<times> world) option" where
  "poll_server c w =
     (case poll_loop c False 0 w of
        None \<Rightarrow> None
      | Some (Inl e, w') \<Rightarrow> Some (Inl e, w')
      | Some (Inr _, w') \<Rightarrow> Some (Inr (), w'))"

section \<open>The provisioner\<close>

text \<open>
  Lines 179 to 195 of \<^verbatim>\<open>main\<close>: the quota check, the four lists, the four
  resolutions and the create call. The arguments of the create call are evaluated from
  left to right before the call is made.
\<close>

definition create_params :: "string \<Rightarrow> details" where
  "create_params sshkeyid =
     [(''hostname'', HOSTNAME), (''label'', HOSTNAME), (''SSHKEYID'', sshkeyid)]"

definition create_server :: "client \<Rightarrow> world \<Rightarrow> (error + unit) \<times> world" where
  "create_server c w =
     (let (servers_dict, w1) = server_list c w in
      (case get_limit_running_servers servers_dict of
         Inl e \<Rightarrow> (Inl e, w1)
       | Inr _ \<Rightarrow>
      (let (plans_dict, w2) = plans_list c w1;
           (os_dict, w3) = os_list c w2;
           (regions_dict, w4) = regions_list c w3;
           (ssh_keys_dict, w5) = sshkey_list c w4
       in
      (case get_plan plans_dict of
         Inl e \<Rightarrow> (Inl e, w5)
       | Inr target_plan \<Rightarrow>
      (case get_os os_dict of
         Inl e \<Rightarrow> (Inl e, w5)
       | Inr target_os \<Rightarrow>
      (case get_datacenter regions_dict of
         Inl e \<Rightarrow> (Inl e, w5)
       | Inr target_datacenter \<Rightarrow>
      (case get_ssh_key ssh_keys_dict of
         Inl e \<Rightarrow> (Inl e, w5)
       | Inr target_ssh_key \<Rightarrow>
      (let w6 = print_line ''Creating server now'' w5 in
      (case subscript target_datacenter ''DCID'' of
         Inl e \<Rightarrow> (Inl e, w6)
       | Inr dcid \<Rightarrow>
      (case subscript target_plan ''VPSPLANID'' of
         Inl e \<Rightarrow> (Inl e, w6)
       | Inr vpsplanid \<Rightarrow>
      (case subscript target_os ''OSID'' of
         Inl e \<Rightarrow> (Inl e, w6)
       | Inr osid \<Rightarrow>
      (case subscript target_ssh_key ''SSHKEYID'' of
         Inl e \<Rightarrow> (Inl e, w6)
       | Inr sshkeyid \<Rightarrow>
           (Inr (), server_create dcid vpsplanid osid (create_params sshkeyid) w6)
      ))))))))))))"

text \<open>\<^verbatim>\<open>main\<close>: the create call, then the poller (line 196).\<close>

definition main :: "client \<Rightarrow> world \<Rightarrow> ((error + unit) \<times> world) option" where
  "main c w =
     (case create_server c w of
        (Inl e, w') \<Rightarrow> Some (Inl e, w')
      | (Inr _, w') \<Rightarrow> poll_server c w')"

section \<open>Vocabulary of the properties\<close>

text \<open>
  The provider's candidates carry the attribute a resolver matches on: every item of the
  dict has the key \<open>attr\<close>.
\<close>

definition has_attr :: "string \<Rightarrow> pydict \<Rightarrow> bool" where
  "has_attr attr d =
     list_all (\<lambda>(item_id, item_details). map_of item_details attr \<noteq> None) d"

text \<open>The candidates whose attribute equals the target, in iteration order.\<close>

definition matching :: "string \<Rightarrow> string \<Rightarrow> pydict \<Rightarrow> details list" where
  "matching attr target d =
     filter (\<lambda>item_details. map_of item_details attr = Some target) (map snd d)"

text \<open>An instance with the configured label, and readiness of such an instance.\<close>

definition labelled :: "details \<Rightarrow> bool" where
  "labelled s = (map_of s ''label'' = Some HOSTNAME)"

definition is_ready :: "details \<Rightarrow> bool" where
  "is_ready s =
     (labelled s \<and> map_of s ''status'' = Some ''active''
      \<and> map_of s ''server_state'' = Some ''ok'')"

text \<open>
  An instance as the provider returns it: it has a label, and the two status attributes
  the poller reads of an instance with the configured label.
\<close>

definition wf_server :: "details \<Rightarrow> bool" where
  "wf_server s =
     (map_of s ''label'' \<noteq> None
      \<and> (labelled s \<longrightarrow>
            map_of s ''status'' \<noteq> None \<and> map_of s ''server_state'' \<noteq> None))"

definition wf_servers :: "pydict \<Rightarrow> bool" where
  "wf_servers d = list_all wf_server (map snd d)"

text \<open>
  The lines one scan prints: one for every instance with the configured label that is
  not ready, in iteration order.
\<close>

definition scan_lines :: "pydict \<Rightarrow> string list" where
  "scan_lines d =
     concat (map (\<lambda>s. case expecting_line s of Inl e \<Rightarrow> [] | Inr line \<Rightarrow> [line])
       (filter (\<lambda>s. labelled s \<and> \<not> is_ready s) (map snd d)))"

text \<open>The world after the sleep and the fetch that start an iteration of the poller.\<close>

definition polled :: "world \<Rightarrow> world" where
  "polled w = w\<lparr>calls := calls w @ [Sleep 2, ServerList], fetched := Suc (fetched w)\<rparr>"

text \<open>The create calls among the calls of a run.\<close>

fun is_create :: "call \<Rightarrow> bool" where
  "is_create (ServerCreate dcid vpsplanid osid params) = True"
| "is_create other = False"

definition create_calls :: "call list \<Rightarrow> call list" where
  "create_calls cs = filter is_create cs"

section \<open>Provider fixtures\<close>

text \<open>
  Provider answers for the concrete runs below: candidate lists with exactly one match
  per dimension, candidate lists with two matches, and three instances (ready, labelled
  but pending, and labelled otherwise).
\<close>

definition fixture_sshkeys :: pydict where
  "fixture_sshkeys =
     [(''1'', [(''SSHKEYID'', ''1''), (''name'', ''laptop'')]),
      (''2'', [(''SSHKEYID'', ''2''), (''name'', ''bgp-coldnorthadmin'')])]"

definition fixture_plans :: pydict where
  "fixture_plans =
     [(''201'', [(''VPSPLANID'', ''201''), (''price_per_month'', ''5.00'')]),
      (''202'', [(''VPSPLANID'', ''202''), (''price_per_month'', ''10.00'')])]"

definition fixture_oses :: pydict where
  "fixture_oses =
     [(''127'', [(''OSID'', ''127''), (''name'', ''CentOS 6 x64'')]),
      (''352'', [(''OSID'', ''352''), (''name'', ''Debian 10 x64 (buster)'')])]"

definition fixture_regions :: pydict where
  "fixture_regions =
     [(''1'', [(''DCID'', ''1''), (''name'', ''New Jersey'')]),
      (''22'', [(''DCID'', ''22''), (''name'', ''Toronto'')])]"

definition repeated_sshkeys :: pydict where
  "repeated_sshkeys =
     [(''1'', [(''SSHKEYID'', ''1''), (''name'', ''bgp-coldnorthadmin'')]),
      (''2'', [(''SSHKEYID'', ''2''), (''name'', ''laptop'')]),
      (''3'', [(''SSHKEYID'', ''3''), (''name'', ''bgp-coldnorthadmin'')])]"

definition repeated_plans :: pydict where
  "repeated_plans =
     [(''201'', [(''VPSPLANID'', ''201''), (''price_per_month'', ''5.00'')]),
      (''202'', [(''VPSPLANID'', ''202''), (''price_per_month'', ''5.00'')])]"

definition repeated_oses :: pydict where
  "repeated_oses =
     [(''352'', [(''OSID'', ''352''), (''name'', ''Debian 10 x64 (buster)'')]),
      (''353'', [(''OSID'', ''353''), (''name'', ''Debian 10 x64 (buster)'')]),
      (''127'', [(''OSID'', ''127''), (''name'', ''CentOS 6 x64'')])]"

definition repeated_regions :: pydict where
  "repeated_regions =
     [(''22'', [(''DCID'', ''22''), (''name'', ''Toronto'')]),
      (''23'', [(''DCID'', ''23''), (''name'', ''Toronto'')])]"

definition ready_server :: details where
  "ready_server =
     [(''label'', ''bgp-coldnorthadmin''), (''status'', ''active''),
      (''server_state'', ''ok'')]"

definition pending_server :: details where
  "pending_server =
     [(''label'', ''bgp-coldnorthadmin''), (''status'', ''pending''),
      (''server_state'', ''none'')]"

definition other_server :: details where
  "other_server =
     [(''label'', ''mail''), (''status'', ''active''), (''server_state'', ''ok'')]"

definition fixture_client :: "(nat \<Rightarrow> pydict) \<Rightarrow> client" where
  "fixture_client responses =
     \<lparr>server_responses = responses, plans = fixture_plans, oses = fixture_oses,
      regions = fixture_regions, sshkeys = fixture_sshkeys\<rparr>"

definition start :: world where
  "start = \<lparr>calls = [], stdout = [], fetched = 0\<rparr>"

section \<open>Unfolding sets\<close>

lemmas targets = TARGET_OS_def TARGET_PLAN_PRICE_def TARGET_DATACENTER_def
  TARGET_SSHKEY_def HOSTNAME_def

lemmas fixtures = fixture_sshkeys_def fixture_plans_def fixture_oses_def
  fixture_regions_def repeated_sshkeys_def repeated_plans_def repeated_oses_def
  repeated_regions_def ready_server_def pending_server_def other_server_def
  fixture_client_def start_def

section \<open>The resolver loop\<close>

lemma scan_items_last:
  "has_attr attr d \<Longrightarrow>
   scan_items attr target d var =
     Inr (if matching attr target d = [] then var
          else Bound (Some (last (matching attr target d))))"
proof (induction d arbitrary: var)
  case Nil
  then show ?case by (simp add: matching_def)
next
  case (Cons item d)
  obtain item_id item_details where item: "item = (item_id, item_details)"
    by (cases item)
  from Cons.prems item obtain v where v: "map_of item_details attr = Some v"
    and rest: "has_attr attr d"
    by (auto simp: has_attr_def)
  show ?case
    using Cons.IH [OF rest] v item
    by (simp add: getitem_def matching_def)
qed

lemma check_and_return_Bound_Some:
  "check_and_return var_name target (Bound (Some x)) = Inr (Some x)"
  by (simp add: check_and_return_def check_return_value_def)

lemma check_and_return_Bound_None:
  "check_and_return var_name target (Bound None)
     = Inl (GenericMissingAttribute (missing_message target))"
  by (simp add: check_and_return_def check_return_value_def)

lemma check_and_return_Unbound:
  "check_and_return var_name target Unbound = Inl (UnboundLocalError var_name)"
  by (simp add: check_and_return_def)

lemma resolve_found:
  assumes "has_attr attr d" and "matching attr target d \<noteq> []"
  shows "(case scan_items attr target d var of
            Inl e \<Rightarrow> Inl e
          | Inr v \<Rightarrow> check_and_return var_name target v)
         = Inr (Some (last (matching attr target d)))"
  using assms by (simp add: scan_items_last check_and_return_Bound_Some)

lemma resolve_not_found:
  assumes "has_attr attr d" and "matching attr target d = []"
  shows "(case scan_items attr target d var of
            Inl e \<Rightarrow> Inl e
          | Inr v \<Rightarrow> check_and_return var_name target v)
         = check_and_return var_name target var"
  using assms by (simp add: scan_items_last)

section \<open>Resolvers: no candidate matches\<close>

text \<open>
  With no matching candidate the loop leaves the local variable as it was: None in
  \<^verbatim>\<open>get_ssh_key\<close> and \<^verbatim>\<open>get_plan\<close>, unassigned in \<^verbatim>\<open>get_os\<close> and
  \<^verbatim>\<open>get_datacenter\<close>.
\<close>

lemma resolvers_no_match:
  "has_attr ''name'' d \<Longrightarrow> matching ''name'' TARGET_SSHKEY d = [] \<Longrightarrow>
     get_ssh_key d = Inl (GenericMissingAttribute (missing_message TARGET_SSHKEY))"
  "has_attr ''price_per_month'' d \<Longrightarrow> matching ''price_per_month'' TARGET_PLAN_PRICE d = [] \<Longrightarrow>
     get_plan d = Inl (GenericMissingAttribute (missing_message TARGET_PLAN_PRICE))"
  "has_attr ''name'' d \<Longrightarrow> matching ''name'' TARGET_OS d = [] \<Longrightarrow>
     get_os d = Inl (UnboundLocalError ''target_os'')"
  "has_attr ''name'' d \<Longrightarrow> matching ''name'' TARGET_DATACENTER d = [] \<Longrightarrow>
     get_datacenter d = Inl (UnboundLocalError ''target_datacenter'')"
  by (simp_all add: get_ssh_key_def get_plan_def get_os_def get_datacenter_def
      resolve_not_found check_and_return_Bound_None check_and_return_Unbound)

text \<open>
  C1, at the inputs where the code departs from it: on an OS list and a region list in
  which no candidate has the target name (the empty list, and a list with one other
  candidate), \<^verbatim>\<open>get_os\<close> and \<^verbatim>\<open>get_datacenter\<close> raise UnboundLocalError for their
  unassigned local, not GenericMissingAttribute; on the same lists \<^verbatim>\<open>get_ssh_key\<close>
  and \<^verbatim>\<open>get_plan\<close>, which assign None first, raise GenericMissingAttribute with the
  target in the message.
\<close>

theorem resolvers_no_match_at_input:
  "get_os [] = Inl (UnboundLocalError ''target_os'')
   \<and> get_os [(''127'', [(''OSID'', ''127''), (''name'', ''CentOS 6 x64'')])]
       = Inl (UnboundLocalError ''target_os'')
   \<and> get_datacenter [] = Inl (UnboundLocalError ''target_datacenter'')
   \<and> get_datacenter [(''1'', [(''DCID'', ''1''), (''name'', ''New Jersey'')])]
       = Inl (UnboundLocalError ''target_datacenter'')
   \<and> get_ssh_key []
       = Inl (GenericMissingAttribute
               ''We tried to find: bgp-coldnorthadmin and nothing matched from Vultr'')
   \<and> get_plan [(''201'', [(''VPSPLANID'', ''201''), (''price_per_month'', ''10.00'')])]
       = Inl (GenericMissingAttribute
               ''We tried to find: 5.00 and nothing matched from Vultr'')"
  by (simp add: get_os_def get_datacenter_def get_ssh_key_def get_plan_def
      check_and_return_def check_return_value_def missing_message_def getitem_def
      TARGET_OS_def TARGET_DATACENTER_def TARGET_SSHKEY_def TARGET_PLAN_PRICE_def)

section \<open>Resolvers: which match is returned\<close>

text \<open>
  C5: on a candidate set in which several candidates satisfy the predicate, each of the
  four resolvers returns the match that comes last in iteration order. The candidates
  carry the attribute the resolver compares.
\<close>

theorem resolvers_last_match_wins:
  "(has_attr ''name'' ssh_keys_dict
      \<and> 1 < length (matching ''name'' TARGET_SSHKEY ssh_keys_dict)
      \<longrightarrow> get_ssh_key ssh_keys_dict
            = Inr (Some (last (matching ''name'' TARGET_SSHKEY ssh_keys_dict))))
   \<and> (has_attr ''price_per_month'' plans_dict
        \<and> 1 < length (matching ''price_per_month'' TARGET_PLAN_PRICE plans_dict)
      \<longrightarrow> get_plan plans_dict
            = Inr (Some (last (matching ''price_per_month'' TARGET_PLAN_PRICE plans_dict))))
   \<and> (has_attr ''name'' os_dict \<and> 1 < length (matching ''name'' TARGET_OS os_dict)
      \<longrightarrow> get_os os_dict = Inr (Some (last (matching ''name'' TARGET_OS os_dict))))
   \<and> (has_attr ''name'' regions_dict
        \<and> 1 < length (matching ''name'' TARGET_DATACENTER regions_dict)
      \<longrightarrow> get_datacenter regions_dict
            = Inr (Some (last (matching ''name'' TARGET_DATACENTER regions_dict))))"
proof -
  have ne: "1 < length xs \<Longrightarrow> xs \<noteq> []" for xs :: "details list"
    by auto
  show ?thesis
    unfolding get_ssh_key_def get_plan_def get_os_def get_datacenter_def
    by (intro conjI impI resolve_found) (auto dest: ne)
qed

theorem resolvers_last_match_wins_witness:
  "has_attr ''name'' repeated_sshkeys
   \<and> length (matching ''name'' TARGET_SSHKEY repeated_sshkeys) = 2
   \<and> get_ssh_key repeated_sshkeys
       = Inr (Some [(''SSHKEYID'', ''3''), (''name'', ''bgp-coldnorthadmin'')])
   \<and> has_attr ''price_per_month'' repeated_plans
   \<and> length (matching ''price_per_month'' TARGET_PLAN_PRICE repeated_plans) = 2
   \<and> get_plan repeated_plans
       = Inr (Some [(''VPSPLANID'', ''202''), (''price_per_month'', ''5.00'')])
   \<and> has_attr ''name'' repeated_oses
   \<and> length (matching ''name'' TARGET_OS repeated_oses) = 2
   \<and> get_os repeated_oses
       = Inr (Some [(''OSID'', ''353''), (''name'', ''Debian 10 x64 (buster)'')])
   \<and> has_attr ''name'' repeated_regions
   \<and> length (matching ''name'' TARGET_DATACENTER repeated_regions) = 2
   \<and> get_datacenter repeated_regions
       = Inr (Some [(''DCID'', ''23''), (''name'', ''Toronto'')])"
  using resolvers_last_match_wins
    [of repeated_sshkeys repeated_plans repeated_oses repeated_regions]
  by (simp add: has_attr_def matching_def targets fixtures)

text \<open>
  C6: on a candidate set in which exactly one candidate satisfies the predicate, each of
  the four resolvers returns that candidate.
\<close>

theorem resolvers_unique_match:
  "(has_attr ''name'' ssh_keys_dict
      \<and> matching ''name'' TARGET_SSHKEY ssh_keys_dict = [key_details]
      \<longrightarrow> get_ssh_key ssh_keys_dict = Inr (Some key_details))
   \<and> (has_attr ''price_per_month'' plans_dict
        \<and> matching ''price_per_month'' TARGET_PLAN_PRICE plans_dict = [plan_details]
      \<longrightarrow> get_plan plans_dict = Inr (Some plan_details))
   \<and> (has_attr ''name'' os_dict \<and> matching ''name'' TARGET_OS os_dict = [os_details]
      \<longrightarrow> get_os os_dict = Inr (Some os_details))
   \<and> (has_attr ''name'' regions_dict
        \<and> matching ''name'' TARGET_DATACENTER regions_dict = [region_details]
      \<longrightarrow> get_datacenter regions_dict = Inr (Some region_details))"
  unfolding get_ssh_key_def get_plan_def get_os_def get_datacenter_def
  by (auto simp: resolve_found)

theorem resolvers_unique_match_witness:
  "has_attr ''name'' fixture_sshkeys
   \<and> matching ''name'' TARGET_SSHKEY fixture_sshkeys
       = [[(''SSHKEYID'', ''2''), (''name'', ''bgp-coldnorthadmin'')]]
   \<and> get_ssh_key fixture_sshkeys
       = Inr (Some [(''SSHKEYID'', ''2''), (''name'', ''bgp-coldnorthadmin'')])
   \<and> has_attr ''price_per_month'' fixture_plans
   \<and> matching ''price_per_month'' TARGET_PLAN_PRICE fixture_plans
       = [[(''VPSPLANID'', ''201''), (''price_per_month'', ''5.00'')]]
   \<and> get_plan fixture_plans
       = Inr (Some [(''VPSPLANID'', ''201''), (''price_per_month'', ''5.00'')])
   \<and> has_attr ''name'' fixture_oses
   \<and> matching ''name'' TARGET_OS fixture_oses
       = [[(''OSID'', ''352''), (''name'', ''Debian 10 x64 (buster)'')]]
   \<and> get_os fixture_oses
       = Inr (Some [(''OSID'', ''352''), (''name'', ''Debian 10 x64 (buster)'')])
   \<and> has_attr ''name'' fixture_regions
   \<and> matching ''name'' TARGET_DATACENTER fixture_regions
       = [[(''DCID'', ''22''), (''name'', ''Toronto'')]]
   \<and> get_datacenter fixture_regions
       = Inr (Some [(''DCID'', ''22''), (''name'', ''Toronto'')])"
  using resolvers_unique_match
    [of fixture_sshkeys "[(''SSHKEYID'', ''2''), (''name'', ''bgp-coldnorthadmin'')]"
        fixture_plans "[(''VPSPLANID'', ''201''), (''price_per_month'', ''5.00'')]"
        fixture_oses "[(''OSID'', ''352''), (''name'', ''Debian 10 x64 (buster)'')]"
        fixture_regions "[(''DCID'', ''22''), (''name'', ''Toronto'')]"]
  by (simp add: has_attr_def matching_def targets fixtures)

section \<open>The quota guard\<close>

text \<open>
  C4: on an empty collection of running instances the quota guard returns True; on a
  collection of one or more it raises MaxServerAlreadyRunning, and then the run ends
  with that error after the one fetch of the running instances: no plan, OS, region or
  SSH key listing and no create call is made.
\<close>

theorem quota_guard:
  "(length no_servers = 0 \<longrightarrow> get_limit_running_servers no_servers = Inr True)
   \<and> (1 \<le> length servers_dict \<longrightarrow>
        get_limit_running_servers servers_dict
          = Inl (MaxServerAlreadyRunning ''Maximum servers currently running''))
   \<and> (1 \<le> length (server_responses c (fetched w)) \<longrightarrow>
        create_server c w
          = (Inl (MaxServerAlreadyRunning ''Maximum servers currently running''),
             w\<lparr>calls := calls w @ [ServerList], fetched := Suc (fetched w)\<rparr>)
        \<and> main c w
          = Some (Inl (MaxServerAlreadyRunning ''Maximum servers currently running''),
                  w\<lparr>calls := calls w @ [ServerList], fetched := Suc (fetched w)\<rparr>))"
  by (simp add: get_limit_running_servers_def create_server_def main_def server_list_def)

theorem quota_guard_witness:
  "get_limit_running_servers [] = Inr True
   \<and> get_limit_running_servers [(''9'', ready_server)]
       = Inl (MaxServerAlreadyRunning ''Maximum servers currently running'')
   \<and> main (fixture_client (\<lambda>n. [(''9'', ready_server)])) start
       = Some (Inl (MaxServerAlreadyRunning ''Maximum servers currently running''),
               \<lparr>calls = [ServerList], stdout = [], fetched = 1\<rparr>)"
  using quota_guard
    [of "[]" "[(''9'', ready_server)]" "fixture_client (\<lambda>n. [(''9'', ready_server)])" start]
  by (simp add: fixture_client_def start_def)

section \<open>The scan of the fetched instances\<close>

lemma scan_servers_wf:
  "wf_servers d \<Longrightarrow>
   scan_servers d server_state w =
     (Inr (server_state \<or> list_ex is_ready (map snd d)),
      w\<lparr>stdout := stdout w @ scan_lines d\<rparr>)"
proof (induction d arbitrary: server_state w)
  case Nil
  then show ?case by (simp add: scan_lines_def)
next
  case (Cons srv d)
  obtain server_id s where srv: "srv = (server_id, s)"
    by (cases srv)
  from Cons.prems srv have wf: "wf_server s" and rest: "wf_servers d"
    by (simp_all add: wf_servers_def)
  note IH = Cons.IH [OF rest]
  from wf obtain label where label: "map_of s ''label'' = Some label"
    by (auto simp: wf_server_def)
  show ?case
  proof (cases "labelled s")
    case False
    with label have "label \<noteq> HOSTNAME"
      by (simp add: labelled_def)
    with label False show ?thesis
      by (simp add: srv IH getitem_def scan_lines_def is_ready_def)
  next
    case True
    with label have eq: "label = HOSTNAME"
      by (simp add: labelled_def)
    from wf True obtain status state where
      st: "map_of s ''status'' = Some status" "map_of s ''server_state'' = Some state"
      by (auto simp: wf_server_def)
    show ?thesis
    proof (cases "is_ready s")
      case True
      with st have "not_ready s = Inr False"
        by (simp add: not_ready_def getitem_def is_ready_def)
      with label eq True show ?thesis
        by (simp add: srv IH getitem_def scan_lines_def)
    next
      case False
      with st \<open>labelled s\<close> have "not_ready s = Inr True"
        by (auto simp: not_ready_def getitem_def is_ready_def)
      moreover from st have "expecting_line s = Inr (expecting_message status state)"
        by (simp add: expecting_line_def getitem_def)
      ultimately show ?thesis
        using label eq False \<open>labelled s\<close>
        by (simp add: srv IH getitem_def scan_lines_def print_line_def)
    qed
  qed
qed

lemma scan_servers_keeps_ready:
  "scan_servers d True w = (Inr server_state', w') \<Longrightarrow> server_state'"
proof (induction d arbitrary: w)
  case Nil
  then show ?case by simp
next
  case (Cons srv d)
  obtain server_id s where srv: "srv = (server_id, s)"
    by (cases srv)
  from Cons.prems show ?case
    unfolding srv
    by (auto split: sum.splits if_splits bool.splits dest: Cons.IH)
qed

lemma fixture_servers:
  "labelled ready_server" "is_ready ready_server" "wf_server ready_server"
  "labelled pending_server" "\<not> is_ready pending_server" "wf_server pending_server"
  "\<not> labelled other_server" "\<not> is_ready other_server" "wf_server other_server"
  by (simp_all add: wf_server_def labelled_def is_ready_def
      ready_server_def pending_server_def other_server_def HOSTNAME_def)

lemma pending_server_line:
  "expecting_line pending_server =
     Inr ''Expecting STATUS \"ACTIVE\" and SERVER_STATE \"OK\" but Vultr returned: pending and none''"
  by (simp add: expecting_line_def expecting_message_def getitem_def pending_server_def)

section \<open>The poll loop\<close>

lemma poll_body_empty:
  "server_responses c (fetched w) = [] \<Longrightarrow>
   poll_body c server_state timeout w =
     (Inr (server_state, timeout + 1), print_line no_servers_message (polled w))"
  by (simp add: poll_body_def sleep_def server_list_def polled_def)

lemma poll_body_scan:
  "server_responses c (fetched w) \<noteq> [] \<Longrightarrow>
   poll_body c server_state timeout w =
     (case scan_servers (server_responses c (fetched w)) server_state (polled w) of
        (Inl e, w3) \<Rightarrow> (Inl e, w3)
      | (Inr server_state', w3) \<Rightarrow> (Inr (server_state', timeout), w3))"
  by (simp add: poll_body_def sleep_def server_list_def polled_def)

lemma poll_body_nonempty_timeout:
  "server_responses c (fetched w) \<noteq> [] \<Longrightarrow>
   poll_body c server_state timeout w = (Inr (server_state', timeout'), w') \<Longrightarrow>
   timeout' = timeout"
  by (auto simp: poll_body_scan split: prod.splits sum.splits)




lemma scan_servers_calls:
  "scan_servers d server_state w = (r, w') \<Longrightarrow>
   calls w' = calls w \<and> fetched w' = fetched w"
proof (induction d server_state w rule: scan_servers.induct)
  case (1 server_state w)
  then show ?case by simp
next
  case (2 server_id server_details rest server_state w)
  then show ?case
    by (auto simp: print_line_def split: sum.splits if_splits bool.splits)
qed

lemma poll_body_calls:
  assumes "poll_body c server_state timeout w = (r, w')"
  shows "calls w' = calls w @ [Sleep 2, ServerList]"
proof (cases "server_responses c (fetched w) = []")
  case True
  with assms show ?thesis
    by (auto simp: poll_body_empty polled_def print_line_def)
next
  case False
  obtain r1 w1 where
    scan: "scan_servers (server_responses c (fetched w)) server_state (polled w) = (r1, w1)"
    by (cases "scan_servers (server_responses c (fetched w)) server_state (polled w)")
  with assms False have "w' = w1"
    by (auto simp: poll_body_scan split: sum.splits)
  with scan_servers_calls [OF scan] show ?thesis
    by (simp add: polled_def)
qed

lemma poll_body_fetched:
  assumes "poll_body c server_state timeout w = (r, w')"
  shows "fetched w' = Suc (fetched w)"
proof (cases "server_responses c (fetched w) = []")
  case True
  with assms show ?thesis
    by (auto simp: poll_body_empty polled_def print_line_def)
next
  case False
  obtain r1 w1 where
    scan: "scan_servers (server_responses c (fetched w)) server_state (polled w) = (r1, w1)"
    by (cases "scan_servers (server_responses c (fetched w)) server_state (polled w)")
  with assms False have "w' = w1"
    by (auto simp: poll_body_scan split: sum.splits)
  with scan_servers_calls [OF scan] show ?thesis
    by (simp add: polled_def)
qed

text \<open>
  The fetches of a run started in the world \<open>w\<close> are the answers from index
  \<open>fetched w\<close> on; each iteration moves the index by one.
\<close>

lemma poll_loop_timeout_unchanged_aux:
  "poll_loop c server_state timeout w = Some r \<Longrightarrow>
   (\<forall>n\<ge>fetched w. server_responses c n \<noteq> []) \<longrightarrow>
   (\<forall>server_state' timeout' w'. r = (Inr (server_state', timeout'), w')
      \<longrightarrow> timeout' = timeout)"
proof (erule poll_loop.raw_induct [rotated], intro impI allI)
  fix f c server_state timeout w r server_state' timeout' w'
  assume IH: "\<And>c server_state timeout w y. f c server_state timeout w = Some y
      \<Longrightarrow> (\<forall>n\<ge>fetched w. server_responses c n \<noteq> []) \<longrightarrow>
          (\<forall>server_state' timeout' w'. y = (Inr (server_state', timeout'), w')
             \<longrightarrow> timeout' = timeout)"
    and step: "(if \<not> server_state \<and> timeout < 10
        then case poll_body c server_state timeout w of
             (Inl e, w') \<Rightarrow> Some (Inl e, w')
           | (Inr (server_state', timeout'), w') \<Rightarrow> f c server_state' timeout' w'
        else Some (Inr (server_state, timeout), print_line ready_message w)) = Some r"
    and ne: "\<forall>n\<ge>fetched w. server_responses c n \<noteq> []"
    and r: "r = (Inr (server_state', timeout'), w')"
  from ne have ne': "server_responses c (fetched w) \<noteq> []" by simp
  show "timeout' = timeout"
  proof (cases "\<not> server_state \<and> timeout < 10")
    case False
    with step r show ?thesis by (auto simp: print_line_def)
  next
    case True
    with step obtain ss1 t1 w1 where
      body: "poll_body c server_state timeout w = (Inr (ss1, t1), w1)"
      and rec: "f c ss1 t1 w1 = Some r"
      using r by (auto split: prod.splits sum.splits)
    from poll_body_nonempty_timeout [OF ne' body] have t1: "t1 = timeout" .
    from poll_body_fetched [OF body] ne
    have "\<forall>n\<ge>fetched w1. server_responses c n \<noteq> []" by simp
    with IH [OF rec] t1 r show ?thesis by simp
  qed
qed

lemma poll_loop_never_returns_aux:
  "poll_loop c server_state timeout w = Some r \<Longrightarrow>
   \<not> ((\<forall>n\<ge>fetched w. server_responses c n \<noteq> [])
      \<and> (\<forall>n\<ge>fetched w. wf_servers (server_responses c n))
      \<and> (\<forall>n\<ge>fetched w. \<not> list_ex is_ready (map snd (server_responses c n)))
      \<and> \<not> server_state \<and> timeout < 10)"
proof (erule poll_loop.raw_induct [rotated], rule notI)
  fix f c server_state timeout w r
  assume IH: "\<And>c server_state timeout w y. f c server_state timeout w = Some y
      \<Longrightarrow> \<not> ((\<forall>n\<ge>fetched w. server_responses c n \<noteq> [])
      \<and> (\<forall>n\<ge>fetched w. wf_servers (server_responses c n))
      \<and> (\<forall>n\<ge>fetched w. \<not> list_ex is_ready (map snd (server_responses c n)))
      \<and> \<not> server_state \<and> timeout < 10)"
    and step: "(if \<not> server_state \<and> timeout < 10
        then case poll_body c server_state timeout w of
             (Inl e, w') \<Rightarrow> Some (Inl e, w')
           | (Inr (server_state', timeout'), w') \<Rightarrow> f c server_state' timeout' w'
        else Some (Inr (server_state, timeout), print_line ready_message w)) = Some r"
    and inv: "(\<forall>n\<ge>fetched w. server_responses c n \<noteq> [])
      \<and> (\<forall>n\<ge>fetched w. wf_servers (server_responses c n))
      \<and> (\<forall>n\<ge>fetched w. \<not> list_ex is_ready (map snd (server_responses c n)))
      \<and> \<not> server_state \<and> timeout < 10"
  let ?d = "server_responses c (fetched w)"
  let ?w1 = "(polled w)\<lparr>stdout := stdout (polled w) @ scan_lines ?d\<rparr>"
  from inv have d: "?d \<noteq> []" and wfd: "wf_servers ?d"
    and nrd: "\<not> list_ex is_ready (map snd ?d)"
    by simp_all
  from inv have ss: "server_state = False" by simp
  have "poll_body c server_state timeout w = (Inr (False, timeout), ?w1)"
    using d nrd ss by (simp add: poll_body_scan scan_servers_wf [OF wfd])
  with step inv have rec: "f c False timeout ?w1 = Some r"
    by simp
  have "fetched ?w1 = Suc (fetched w)"
    by (simp add: polled_def)
  with inv have "(\<forall>n\<ge>fetched ?w1. server_responses c n \<noteq> [])
      \<and> (\<forall>n\<ge>fetched ?w1. wf_servers (server_responses c n))
      \<and> (\<forall>n\<ge>fetched ?w1. \<not> list_ex is_ready (map snd (server_responses c n)))
      \<and> \<not> False \<and> timeout < 10"
    by simp
  with IH [OF rec] show False by blast
qed

lemma poll_loop_create_calls_aux:
  "poll_loop c server_state timeout w = Some r \<Longrightarrow>
   create_calls (calls (snd r)) = create_calls (calls w)"
proof (erule poll_loop.raw_induct [rotated])
  fix f c server_state timeout w r
  assume IH: "\<And>c server_state timeout w y. f c server_state timeout w = Some y
      \<Longrightarrow> create_calls (calls (snd y)) = create_calls (calls w)"
    and step: "(if \<not> server_state \<and> timeout < 10
        then case poll_body c server_state timeout w of
             (Inl e, w') \<Rightarrow> Some (Inl e, w')
           | (Inr (server_state', timeout'), w') \<Rightarrow> f c server_state' timeout' w'
        else Some (Inr (server_state, timeout), print_line ready_message w)) = Some r"
  obtain b w1 where body: "poll_body c server_state timeout w = (b, w1)"
    by (cases "poll_body c server_state timeout w")
  from poll_body_calls [OF body] have w1: "create_calls (calls w1) = create_calls (calls w)"
    by (simp add: create_calls_def)
  show "create_calls (calls (snd r)) = create_calls (calls w)"
  proof (cases "\<not> server_state \<and> timeout < 10")
    case False
    with step show ?thesis by (auto simp: print_line_def)
  next
    case True
    show ?thesis
    proof (cases b)
      case (Inl e)
      with True step body w1 show ?thesis by auto
    next
      case (Inr v)
      then obtain ss1 t1 where "b = Inr (ss1, t1)" by (cases v) auto
      with True step body have "f c ss1 t1 w1 = Some r" by simp
      from IH [OF this] w1 show ?thesis by simp
    qed
  qed
qed

lemma poll_server_create_calls:
  assumes "poll_server c w = Some (r, w')"
  shows "create_calls (calls w') = create_calls (calls w)"
proof -
  from assms obtain r0 where "poll_loop c False 0 w = Some (r0, w')"
    by (auto simp: poll_server_def split: option.splits sum.splits)
  from poll_loop_create_calls_aux [OF this] show ?thesis by simp
qed

lemma poll_loop_empties:
  "timeout + k = 10 \<Longrightarrow>
   \<forall>i<k. server_responses c (fetched w + i) = [] \<Longrightarrow>
   poll_loop c False timeout w =
     Some (Inr (False, 10),
           \<lparr>calls = calls w @ concat (replicate k [Sleep 2, ServerList]),
            stdout = stdout w @ replicate k no_servers_message @ [ready_message],
            fetched = fetched w + k\<rparr>)"
proof (induction k arbitrary: timeout w)
  case 0
  then show ?case
    by (subst poll_loop.simps) (simp add: print_line_def)
next
  case (Suc k)
  from Suc.prems have t: "timeout < 10" and t': "Suc timeout + k = 10"
    by simp_all
  from Suc.prems have now: "server_responses c (fetched w) = []"
    by (metis add.right_neutral zero_less_Suc)
  let ?w1 = "print_line no_servers_message (polled w)"
  have later: "\<forall>i<k. server_responses c (fetched ?w1 + i) = []"
  proof (intro allI impI)
    fix i assume "i < k"
    then have "Suc i < Suc k" by simp
    with Suc.prems(2) have "server_responses c (fetched w + Suc i) = []" by blast
    then show "server_responses c (fetched ?w1 + i) = []"
      by (simp add: print_line_def polled_def)
  qed
  have "poll_loop c False timeout w = poll_loop c False (Suc timeout) ?w1"
    using t by (subst poll_loop.simps) (simp add: poll_body_empty [OF now])
  also note Suc.IH [OF t' later]
  finally show ?case
    by (simp add: print_line_def polled_def replicate_append_same)
qed

lemma poll_loop_ready:
  assumes t: "timeout < 10"
    and d: "server_responses c (fetched w) \<noteq> []"
    and wf: "wf_servers (server_responses c (fetched w))"
    and ready: "list_ex is_ready (map snd (server_responses c (fetched w)))"
  shows "poll_loop c False timeout w =
     Some (Inr (True, timeout),
           \<lparr>calls = calls w @ [Sleep 2, ServerList],
            stdout = stdout w @ scan_lines (server_responses c (fetched w)) @ [ready_message],
            fetched = Suc (fetched w)\<rparr>)"
proof -
  let ?w1 = "(polled w)\<lparr>stdout := stdout (polled w) @ scan_lines (server_responses c (fetched w))\<rparr>"
  have body: "poll_body c False timeout w = (Inr (True, timeout), ?w1)"
    using d ready by (simp add: poll_body_scan scan_servers_wf [OF wf])
  have "poll_loop c False timeout w = poll_loop c True timeout ?w1"
    using t by (subst poll_loop.simps) (simp add: body)
  also have "\<dots> = Some (Inr (True, timeout), print_line ready_message ?w1)"
    by (subst poll_loop.simps) simp
  finally show ?thesis
    by (simp add: print_line_def polled_def)
qed

lemma poll_body_wf:
  assumes "server_responses c (fetched w) \<noteq> []"
    and "wf_servers (server_responses c (fetched w))"
  shows "poll_body c server_state timeout w =
     (Inr (server_state \<or> list_ex is_ready (map snd (server_responses c (fetched w))),
           timeout),
      \<lparr>calls = calls w @ [Sleep 2, ServerList],
       stdout = stdout w @ scan_lines (server_responses c (fetched w)),
       fetched = Suc (fetched w)\<rparr>)"
  using assms by (simp add: poll_body_scan scan_servers_wf polled_def)

lemma poll_loop_exit_aux:
  "poll_loop c server_state timeout w = Some r \<Longrightarrow>
   (\<forall>server_state' timeout' w'. r = (Inr (server_state', timeout'), w')
      \<longrightarrow> server_state' \<or> 10 \<le> timeout')"
proof (erule poll_loop.raw_induct [rotated], intro impI allI)
  fix f c server_state timeout w r server_state' timeout' w'
  assume IH: "\<And>c server_state timeout w y. f c server_state timeout w = Some y
      \<Longrightarrow> (\<forall>server_state' timeout' w'. y = (Inr (server_state', timeout'), w')
             \<longrightarrow> server_state' \<or> 10 \<le> timeout')"
    and step: "(if \<not> server_state \<and> timeout < 10
        then case poll_body c server_state timeout w of
             (Inl e, w') \<Rightarrow> Some (Inl e, w')
           | (Inr (server_state', timeout'), w') \<Rightarrow> f c server_state' timeout' w'
        else Some (Inr (server_state, timeout), print_line ready_message w)) = Some r"
    and r: "r = (Inr (server_state', timeout'), w')"
  show "server_state' \<or> 10 \<le> timeout'"
  proof (cases "\<not> server_state \<and> timeout < 10")
    case False
    with step r show ?thesis by auto
  next
    case True
    with step obtain ss1 t1 w1 where "f c ss1 t1 w1 = Some r"
      using r by (auto split: prod.splits sum.splits)
    from IH [OF this] r show ?thesis by simp
  qed
qed

lemma poll_loop_last_line_aux:
  "poll_loop c server_state timeout w = Some r \<Longrightarrow>
   (\<forall>v w'. r = (Inr v, w') \<longrightarrow> stdout w' \<noteq> [] \<and> last (stdout w') = ready_message)"
proof (erule poll_loop.raw_induct [rotated], intro impI allI)
  fix f c server_state timeout w r v w'
  assume IH: "\<And>c server_state timeout w y. f c server_state timeout w = Some y
      \<Longrightarrow> (\<forall>v w'. y = (Inr v, w') \<longrightarrow> stdout w' \<noteq> [] \<and> last (stdout w') = ready_message)"
    and step: "(if \<not> server_state \<and> timeout < 10
        then case poll_body c server_state timeout w of
             (Inl e, w') \<Rightarrow> Some (Inl e, w')
           | (Inr (server_state', timeout'), w') \<Rightarrow> f c server_state' timeout' w'
        else Some (Inr (server_state, timeout), print_line ready_message w)) = Some r"
    and r: "r = (Inr v, w')"
  show "stdout w' \<noteq> [] \<and> last (stdout w') = ready_message"
  proof (cases "\<not> server_state \<and> timeout < 10")
    case False
    with step r show ?thesis by (auto simp: print_line_def)
  next
    case True
    with step obtain ss1 t1 w1 where "f c ss1 t1 w1 = Some r"
      using r by (auto split: prod.splits sum.splits)
    from IH [OF this] r show ?thesis by simp
  qed
qed

lemma poll_server_ready:
  assumes "server_responses c (fetched w) \<noteq> []"
    and "wf_servers (server_responses c (fetched w))"
    and "list_ex is_ready (map snd (server_responses c (fetched w)))"
  shows "poll_server c w =
     Some (Inr (),
           \<lparr>calls = calls w @ [Sleep 2, ServerList],
            stdout = stdout w @ scan_lines (server_responses c (fetched w)) @ [ready_message],
            fetched = Suc (fetched w)\<rparr>)"
  using poll_loop_ready [OF _ assms, of 0] by (simp add: poll_server_def)

lemma fixture_resolved:
  "get_plan fixture_plans = Inr (Some [(''VPSPLANID'', ''201''), (''price_per_month'', ''5.00'')])"
  "get_os fixture_oses = Inr (Some [(''OSID'', ''352''), (''name'', ''Debian 10 x64 (buster)'')])"
  "get_datacenter fixture_regions = Inr (Some [(''DCID'', ''22''), (''name'', ''Toronto'')])"
  "get_ssh_key fixture_sshkeys = Inr (Some [(''SSHKEYID'', ''2''), (''name'', ''bgp-coldnorthadmin'')])"
  by (simp_all add: get_plan_def get_os_def get_datacenter_def get_ssh_key_def
      check_and_return_def check_return_value_def getitem_def targets fixtures)

text \<open>
  The loop runs forever when every fetch of the run returns a non-empty list without a
  ready instance; and every run that ends without an error has printed the ready line
  last.
\<close>

lemma poll_loop_never_returns:
  assumes "\<forall>n\<ge>fetched w. server_responses c n \<noteq> []"
    and "\<forall>n\<ge>fetched w. wf_servers (server_responses c n)"
    and "\<forall>n\<ge>fetched w. \<not> list_ex is_ready (map snd (server_responses c n))"
    and "timeout < 10"
  shows "poll_loop c False timeout w = None"
proof (cases "poll_loop c False timeout w")
  case None
  then show ?thesis .
next
  case (Some r)
  from poll_loop_never_returns_aux [OF Some] assms show ?thesis by blast
qed

lemma poll_loop_last_line:
  assumes "poll_loop c server_state timeout w = Some (Inr v, w')"
  shows "stdout w' \<noteq> [] \<and> last (stdout w') = ready_message"
  using poll_loop_last_line_aux [OF assms] by simp

section \<open>The create request\<close>

text \<open>
  C9: when the quota check and the four resolutions succeed, the provisioner makes
  exactly one create call. Its arguments are the DCID of the resolved datacenter, the
  VPSPLANID of the resolved plan, the OSID of the resolved OS, and a dict whose hostname
  and label are both HOSTNAME and whose SSHKEYID is that of the resolved key. The poller
  that follows makes no create call.
\<close>

theorem create_request:
  assumes quota: "get_limit_running_servers (server_responses c (fetched w)) = Inr ok"
    and plan: "get_plan (plans c) = Inr target_plan"
    and os: "get_os (oses c) = Inr target_os"
    and datacenter: "get_datacenter (regions c) = Inr target_datacenter"
    and ssh_key: "get_ssh_key (sshkeys c) = Inr target_ssh_key"
    and dcid: "subscript target_datacenter ''DCID'' = Inr dcid"
    and vpsplanid: "subscript target_plan ''VPSPLANID'' = Inr vpsplanid"
    and osid: "subscript target_os ''OSID'' = Inr osid"
    and sshkeyid: "subscript target_ssh_key ''SSHKEYID'' = Inr sshkeyid"
  shows "create_server c w =
           (Inr (),
            \<lparr>calls = calls w @
               [ServerList, PlansList, OsList, RegionsList, SshkeyList,
                ServerCreate dcid vpsplanid osid
                  [(''hostname'', HOSTNAME), (''label'', HOSTNAME),
                   (''SSHKEYID'', sshkeyid)]],
             stdout = stdout w @ [''Creating server now''],
             fetched = Suc (fetched w)\<rparr>)
         \<and> (\<forall>r w'. main c w = Some (r, w') \<longrightarrow>
               create_calls (calls w') =
                 create_calls (calls w) @
                   [ServerCreate dcid vpsplanid osid
                      [(''hostname'', HOSTNAME), (''label'', HOSTNAME),
                       (''SSHKEYID'', sshkeyid)]])"
proof -
  let ?create = "ServerCreate dcid vpsplanid osid
      [(''hostname'', HOSTNAME), (''label'', HOSTNAME), (''SSHKEYID'', sshkeyid)]"
  let ?w1 = "\<lparr>calls = calls w @
      [ServerList, PlansList, OsList, RegionsList, SshkeyList, ?create],
      stdout = stdout w @ [''Creating server now''], fetched = Suc (fetched w)\<rparr>"
  have created: "create_server c w = (Inr (), ?w1)"
    using assms
    by (simp add: create_server_def server_list_def plans_list_def os_list_def
        regions_list_def sshkey_list_def print_line_def server_create_def
        create_params_def)
  have "create_calls (calls w') = create_calls (calls w) @ [?create]"
    if run: "main c w = Some (r, w')" for r w'
  proof -
    from run created have "poll_server c ?w1 = Some (r, w')"
      by (simp add: main_def)
    from poll_server_create_calls [OF this] show ?thesis
      by (simp add: create_calls_def)
  qed
  with created show ?thesis by blast
qed

theorem create_request_witness:
  "create_server (fixture_client (\<lambda>n. if n = 0 then [] else [(''9'', ready_server)])) start =
     (Inr (),
      \<lparr>calls = [ServerList, PlansList, OsList, RegionsList, SshkeyList,
                ServerCreate ''22'' ''201'' ''352''
                  [(''hostname'', ''bgp-coldnorthadmin''), (''label'', ''bgp-coldnorthadmin''),
                   (''SSHKEYID'', ''2'')]],
       stdout = [''Creating server now''], fetched = 1\<rparr>)
   \<and> main (fixture_client (\<lambda>n. if n = 0 then [] else [(''9'', ready_server)])) start =
     Some (Inr (),
      \<lparr>calls = [ServerList, PlansList, OsList, RegionsList, SshkeyList,
                ServerCreate ''22'' ''201'' ''352''
                  [(''hostname'', ''bgp-coldnorthadmin''), (''label'', ''bgp-coldnorthadmin''),
                   (''SSHKEYID'', ''2'')],
                Sleep 2, ServerList],
       stdout = [''Creating server now'', ''Server is Ready!''], fetched = 2\<rparr>)
   \<and> create_calls
        [ServerList, PlansList, OsList, RegionsList, SshkeyList,
         ServerCreate ''22'' ''201'' ''352''
           [(''hostname'', ''bgp-coldnorthadmin''), (''label'', ''bgp-coldnorthadmin''),
            (''SSHKEYID'', ''2'')],
         Sleep 2, ServerList]
      = [ServerCreate ''22'' ''201'' ''352''
           [(''hostname'', ''bgp-coldnorthadmin''), (''label'', ''bgp-coldnorthadmin''),
            (''SSHKEYID'', ''2'')]]"
proof -
  let ?c = "fixture_client (\<lambda>n. if n = 0 then [] else [(''9'', ready_server)])"
  have created: "create_server ?c start =
     (Inr (),
      \<lparr>calls = [ServerList, PlansList, OsList, RegionsList, SshkeyList,
                ServerCreate ''22'' ''201'' ''352''
                  [(''hostname'', ''bgp-coldnorthadmin''), (''label'', ''bgp-coldnorthadmin''),
                   (''SSHKEYID'', ''2'')]],
       stdout = [''Creating server now''], fetched = 1\<rparr>)"
    using create_request
      [of ?c start True "Some [(''VPSPLANID'', ''201''), (''price_per_month'', ''5.00'')]"
          "Some [(''OSID'', ''352''), (''name'', ''Debian 10 x64 (buster)'')]"
          "Some [(''DCID'', ''22''), (''name'', ''Toronto'')]"
          "Some [(''SSHKEYID'', ''2''), (''name'', ''bgp-coldnorthadmin'')]"
          "''22''" "''201''" "''352''" "''2''"]
    by (simp add: fixture_client_def start_def fixture_resolved
        get_limit_running_servers_def subscript_def getitem_def HOSTNAME_def)
  let ?w1 = "\<lparr>calls = [ServerList, PlansList, OsList, RegionsList, SshkeyList,
                ServerCreate ''22'' ''201'' ''352''
                  [(''hostname'', ''bgp-coldnorthadmin''), (''label'', ''bgp-coldnorthadmin''),
                   (''SSHKEYID'', ''2'')]],
       stdout = [''Creating server now''], fetched = 1\<rparr>"
  have "main ?c start = poll_server ?c ?w1"
    by (simp add: main_def created)
  also have "\<dots> =
     Some (Inr (),
      \<lparr>calls = [ServerList, PlansList, OsList, RegionsList, SshkeyList,
                ServerCreate ''22'' ''201'' ''352''
                  [(''hostname'', ''bgp-coldnorthadmin''), (''label'', ''bgp-coldnorthadmin''),
                   (''SSHKEYID'', ''2'')],
                Sleep 2, ServerList],
       stdout = [''Creating server now'', ''Server is Ready!''], fetched = 2\<rparr>)"
    using poll_server_ready [of ?c ?w1]
    by (simp add: fixture_client_def wf_servers_def scan_lines_def fixture_servers
        ready_message_def numeral_2_eq_2)
  finally have polled: "main ?c start =
     Some (Inr (),
      \<lparr>calls = [ServerList, PlansList, OsList, RegionsList, SshkeyList,
                ServerCreate ''22'' ''201'' ''352''
                  [(''hostname'', ''bgp-coldnorthadmin''), (''label'', ''bgp-coldnorthadmin''),
                   (''SSHKEYID'', ''2'')],
                Sleep 2, ServerList],
       stdout = [''Creating server now'', ''Server is Ready!''], fetched = 2\<rparr>)" .
  show ?thesis
    using created polled by (simp add: create_calls_def)
qed

section \<open>Runs of the poller\<close>

text \<open>
  C7: the poller starts from \<^verbatim>\<open>server_state = False\<close> and \<^verbatim>\<open>timeout = 0\<close> and stops
  counting at 10. When the next ten fetches return empty lists, the loop ends after
  exactly ten iterations (ten sleeps, ten fetches) with the counter at 10 and the
  ready flag still False, and no error is raised.
\<close>

theorem ten_empty_lists_time_out:
  assumes "\<forall>i<10. server_responses c (fetched w + i) = []"
  shows "poll_loop c False 0 w =
           Some (Inr (False, 10),
                 \<lparr>calls = calls w @ concat (replicate 10 [Sleep 2, ServerList]),
                  stdout = stdout w @ replicate 10 no_servers_message @ [ready_message],
                  fetched = fetched w + 10\<rparr>)
         \<and> poll_server c w =
           Some (Inr (),
                 \<lparr>calls = calls w @ concat (replicate 10 [Sleep 2, ServerList]),
                  stdout = stdout w @ replicate 10 no_servers_message @ [ready_message],
                  fetched = fetched w + 10\<rparr>)"
proof -
  have "poll_loop c False 0 w =
           Some (Inr (False, 10),
                 \<lparr>calls = calls w @ concat (replicate 10 [Sleep 2, ServerList]),
                  stdout = stdout w @ replicate 10 no_servers_message @ [ready_message],
                  fetched = fetched w + 10\<rparr>)"
    using assms by (intro poll_loop_empties) simp_all
  then show ?thesis by (simp add: poll_server_def)
qed

theorem ten_empty_lists_time_out_witness:
  "poll_loop (fixture_client (\<lambda>n. [])) False 0 start =
     Some (Inr (False, 10),
           \<lparr>calls = concat (replicate 10 [Sleep 2, ServerList]),
            stdout = replicate 10 no_servers_message @ [ready_message],
            fetched = 10\<rparr>)"
  using ten_empty_lists_time_out [of "fixture_client (\<lambda>n. [])" start]
  by (simp add: fixture_client_def start_def)

text \<open>
  C2, at the input where the code departs from it: a run that times out after ten empty
  lists prints the line Server is Ready! as its last line, as a run that finds the instance
  ready does. The else clause of the while loop runs on every exit of a loop without
  break.
\<close>

theorem timed_out_run_prints_ready:
  "poll_server (fixture_client (\<lambda>n. [])) start =
     Some (Inr (),
           \<lparr>calls = concat (replicate 10 [Sleep 2, ServerList]),
            stdout = replicate 10 ''There are no servers currently running or shutdown''
                       @ [''Server is Ready!''],
            fetched = 10\<rparr>)
   \<and> poll_server (fixture_client (\<lambda>n. [(''9'', ready_server)])) start =
     Some (Inr (),
           \<lparr>calls = [Sleep 2, ServerList], stdout = [''Server is Ready!''],
            fetched = 1\<rparr>)"
proof -
  have "poll_loop (fixture_client (\<lambda>n. [])) False 0 start =
     Some (Inr (False, 10),
           \<lparr>calls = calls start @ concat (replicate 10 [Sleep 2, ServerList]),
            stdout = stdout start @ replicate 10 no_servers_message @ [ready_message],
            fetched = fetched start + 10\<rparr>)"
    by (intro poll_loop_empties) (simp_all add: fixture_client_def)
  then have timed_out: "poll_server (fixture_client (\<lambda>n. [])) start =
     Some (Inr (),
           \<lparr>calls = concat (replicate 10 [Sleep 2, ServerList]),
            stdout = replicate 10 ''There are no servers currently running or shutdown''
                       @ [''Server is Ready!''],
            fetched = 10\<rparr>)"
    by (simp add: poll_server_def start_def no_servers_message_def ready_message_def)
  have ready: "poll_server (fixture_client (\<lambda>n. [(''9'', ready_server)])) start =
     Some (Inr (),
           \<lparr>calls = [Sleep 2, ServerList], stdout = [''Server is Ready!''],
            fetched = 1\<rparr>)"
    using poll_server_ready [of "fixture_client (\<lambda>n. [(''9'', ready_server)])" start]
    by (simp add: fixture_client_def start_def wf_servers_def scan_lines_def
        fixture_servers ready_message_def)
  from timed_out ready show ?thesis by simp
qed

text \<open>
  C3: an iteration that fetches a non-empty list leaves the attempt counter unchanged,
  whatever the list holds; the counter grows (by one) only when the list is empty. So a
  run of the poller whose own fetches (the answers from the index at which it starts)
  are all non-empty never ends by the counter: if it ends without an error, the counter
  is still 0 and the ready flag is set; and when none of those lists holds a ready
  instance, it never ends.
\<close>

theorem counter_counts_only_empty_lists:
  "(poll_body c server_state timeout w = (Inr (server_state', timeout'), w') \<longrightarrow>
      timeout' = (if server_responses c (fetched w) = [] then timeout + 1 else timeout))
   \<and> ((\<forall>n\<ge>fetched w2. server_responses c2 n \<noteq> [])
        \<and> poll_loop c2 False 0 w2 = Some (Inr (server_state2, timeout2), w2')
      \<longrightarrow> timeout2 = 0 \<and> server_state2)
   \<and> ((\<forall>n\<ge>fetched w3. server_responses c3 n \<noteq> [])
        \<and> (\<forall>n\<ge>fetched w3. wf_servers (server_responses c3 n))
        \<and> (\<forall>n\<ge>fetched w3. \<not> list_ex is_ready (map snd (server_responses c3 n)))
      \<longrightarrow> poll_loop c3 False 0 w3 = None \<and> poll_server c3 w3 = None)"
proof (intro conjI)
  show "poll_body c server_state timeout w = (Inr (server_state', timeout'), w') \<longrightarrow>
      timeout' = (if server_responses c (fetched w) = [] then timeout + 1 else timeout)"
  proof
    assume body: "poll_body c server_state timeout w = (Inr (server_state', timeout'), w')"
    show "timeout' = (if server_responses c (fetched w) = [] then timeout + 1 else timeout)"
    proof (cases "server_responses c (fetched w) = []")
      case True
      with body show ?thesis by (simp add: poll_body_empty)
    next
      case False
      with poll_body_nonempty_timeout [OF False body] show ?thesis by simp
    qed
  qed
next
  show "(\<forall>n\<ge>fetched w2. server_responses c2 n \<noteq> [])
        \<and> poll_loop c2 False 0 w2 = Some (Inr (server_state2, timeout2), w2')
      \<longrightarrow> timeout2 = 0 \<and> server_state2"
  proof
    assume run: "(\<forall>n\<ge>fetched w2. server_responses c2 n \<noteq> [])
        \<and> poll_loop c2 False 0 w2 = Some (Inr (server_state2, timeout2), w2')"
    then have t: "timeout2 = 0"
      using poll_loop_timeout_unchanged_aux [of c2 False 0 w2] by blast
    from run have "server_state2 \<or> 10 \<le> timeout2"
      using poll_loop_exit_aux [of c2 False 0 w2] by blast
    with t show "timeout2 = 0 \<and> server_state2" by simp
  qed
next
  show "(\<forall>n\<ge>fetched w3. server_responses c3 n \<noteq> [])
        \<and> (\<forall>n\<ge>fetched w3. wf_servers (server_responses c3 n))
        \<and> (\<forall>n\<ge>fetched w3. \<not> list_ex is_ready (map snd (server_responses c3 n)))
      \<longrightarrow> poll_loop c3 False 0 w3 = None \<and> poll_server c3 w3 = None"
  proof
    assume "(\<forall>n\<ge>fetched w3. server_responses c3 n \<noteq> [])
        \<and> (\<forall>n\<ge>fetched w3. wf_servers (server_responses c3 n))
        \<and> (\<forall>n\<ge>fetched w3. \<not> list_ex is_ready (map snd (server_responses c3 n)))"
    then have "poll_loop c3 False 0 w3 = None"
      by (intro poll_loop_never_returns) simp_all
    then show "poll_loop c3 False 0 w3 = None \<and> poll_server c3 w3 = None"
      by (simp add: poll_server_def)
  qed
qed

text \<open>
  The runs of the witness start after a first, empty answer (the one the quota guard of
  \<^verbatim>\<open>main\<close> has seen): the hypotheses speak of the poller's own fetches only.
\<close>

theorem counter_counts_only_empty_lists_witness:
  "poll_body (fixture_client (\<lambda>n. [(''8'', pending_server), (''7'', other_server)])) False 3 start
     = (Inr (False, 3),
        \<lparr>calls = [Sleep 2, ServerList],
         stdout = [''Expecting STATUS \"ACTIVE\" and SERVER_STATE \"OK\" but Vultr returned: pending and none''],
         fetched = 1\<rparr>)
   \<and> poll_loop (fixture_client (\<lambda>n. if n = 0 then [] else [(''9'', ready_server)])) False 0
        \<lparr>calls = [ServerList], stdout = [], fetched = 1\<rparr>
     = Some (Inr (True, 0),
        \<lparr>calls = [ServerList, Sleep 2, ServerList], stdout = [''Server is Ready!''],
         fetched = 2\<rparr>)
   \<and> poll_server (fixture_client (\<lambda>n. if n = 0 then [] else [(''8'', pending_server)]))
        \<lparr>calls = [ServerList], stdout = [], fetched = 1\<rparr>
     = None"
proof -
  let ?c = "fixture_client (\<lambda>n. [(''8'', pending_server), (''7'', other_server)])"
  let ?c2 = "fixture_client (\<lambda>n. if n = 0 then [] else [(''9'', ready_server)])"
  let ?c3 = "fixture_client (\<lambda>n. if n = 0 then [] else [(''8'', pending_server)])"
  let ?w = "\<lparr>calls = [Sleep 2, ServerList],
         stdout = [''Expecting STATUS \"ACTIVE\" and SERVER_STATE \"OK\" but Vultr returned: pending and none''],
         fetched = 1\<rparr>"
  let ?w1 = "\<lparr>calls = [ServerList], stdout = [], fetched = 1\<rparr>"
  let ?w2 = "\<lparr>calls = [ServerList, Sleep 2, ServerList], stdout = [''Server is Ready!''],
         fetched = 2\<rparr>"
  have body: "poll_body ?c False 3 start = (Inr (False, 3), ?w)"
    by (simp add: poll_body_def sleep_def server_list_def print_line_def getitem_def
        not_ready_def expecting_line_def expecting_message_def fixtures HOSTNAME_def)
  obtain ss2 t2 where run: "poll_loop ?c2 False 0 ?w1 = Some (Inr (ss2, t2), ?w2)"
    using poll_loop_ready [of 0 ?c2 ?w1]
    by (simp add: fixture_client_def wf_servers_def scan_lines_def
        fixture_servers ready_message_def numeral_2_eq_2)
  have ne2: "\<forall>n\<ge>fetched ?w1. server_responses ?c2 n \<noteq> []"
    by (simp add: fixture_client_def)
  have ne3: "\<forall>n\<ge>fetched ?w1. server_responses ?c3 n \<noteq> []"
    and wf3: "\<forall>n\<ge>fetched ?w1. wf_servers (server_responses ?c3 n)"
    and nr3: "\<forall>n\<ge>fetched ?w1. \<not> list_ex is_ready (map snd (server_responses ?c3 n))"
    by (simp_all add: fixture_client_def wf_servers_def fixture_servers)
  from counter_counts_only_empty_lists
    [of ?c False 3 start False 3 ?w ?w1 ?c2 ss2 t2 ?w2 ?w1 ?c3]
    body run ne2 ne3 wf3 nr3
  have "t2 = 0" and "ss2" and "poll_server ?c3 ?w1 = None"
    by blast+
  with body run show ?thesis by simp
qed

text \<open>
  C8: when the fetched list holds an instance with the configured label whose status
  is active and whose server state is ok, the iteration sets the ready flag and
  the loop stops there, without another fetch. When no instance of the list meets all
  three conditions, the iteration leaves the flag False, printing one line for every
  instance that has the label but not both status values.
\<close>

theorem ready_instance_stops_poller:
  "(timeout < 10 \<and> wf_servers (server_responses c (fetched w))
      \<and> list_ex is_ready (map snd (server_responses c (fetched w)))
      \<longrightarrow> poll_loop c False timeout w =
            Some (Inr (True, timeout),
                  \<lparr>calls = calls w @ [Sleep 2, ServerList],
                   stdout = stdout w @ scan_lines (server_responses c (fetched w))
                              @ [ready_message],
                   fetched = Suc (fetched w)\<rparr>))
   \<and> (server_responses c' (fetched w') \<noteq> []
        \<and> wf_servers (server_responses c' (fetched w'))
        \<and> \<not> list_ex is_ready (map snd (server_responses c' (fetched w')))
      \<longrightarrow> poll_body c' False timeout' w' =
            (Inr (False, timeout'),
             \<lparr>calls = calls w' @ [Sleep 2, ServerList],
              stdout = stdout w' @ scan_lines (server_responses c' (fetched w')),
              fetched = Suc (fetched w')\<rparr>))"
proof (rule conjI; rule impI)
  assume a: "timeout < 10 \<and> wf_servers (server_responses c (fetched w))
      \<and> list_ex is_ready (map snd (server_responses c (fetched w)))"
  then have "server_responses c (fetched w) \<noteq> []" by auto
  with a show "poll_loop c False timeout w =
            Some (Inr (True, timeout),
                  \<lparr>calls = calls w @ [Sleep 2, ServerList],
                   stdout = stdout w @ scan_lines (server_responses c (fetched w))
                              @ [ready_message],
                   fetched = Suc (fetched w)\<rparr>)"
    by (intro poll_loop_ready) simp_all
next
  assume "server_responses c' (fetched w') \<noteq> []
        \<and> wf_servers (server_responses c' (fetched w'))
        \<and> \<not> list_ex is_ready (map snd (server_responses c' (fetched w')))"
  then show "poll_body c' False timeout' w' =
            (Inr (False, timeout'),
             \<lparr>calls = calls w' @ [Sleep 2, ServerList],
              stdout = stdout w' @ scan_lines (server_responses c' (fetched w')),
              fetched = Suc (fetched w')\<rparr>)"
    by (simp add: poll_body_wf)
qed

theorem ready_instance_stops_poller_witness:
  "is_ready ready_server \<and> \<not> is_ready pending_server \<and> \<not> is_ready other_server
   \<and> poll_loop (fixture_client (\<lambda>n. [(''7'', other_server), (''9'', ready_server)]))
        False 0 start
     = Some (Inr (True, 0),
             \<lparr>calls = [Sleep 2, ServerList], stdout = [''Server is Ready!''],
              fetched = 1\<rparr>)
   \<and> poll_body (fixture_client (\<lambda>n. [(''7'', other_server), (''8'', pending_server)]))
        False 0 start
     = (Inr (False, 0),
        \<lparr>calls = [Sleep 2, ServerList],
         stdout = [''Expecting STATUS \"ACTIVE\" and SERVER_STATE \"OK\" but Vultr returned: pending and none''],
         fetched = 1\<rparr>)"
  using ready_instance_stops_poller
    [of 0 "fixture_client (\<lambda>n. [(''7'', other_server), (''9'', ready_server)])" start
        "fixture_client (\<lambda>n. [(''7'', other_server), (''8'', pending_server)])" start 0]
  by (simp add: fixture_client_def start_def wf_servers_def scan_lines_def
      fixture_servers pending_server_line ready_message_def)

text \<open>
  C10: within one scan, a ready flag that is set stays set whatever instances follow.
  When an instance with the configured label is ready, the scan ends with the flag set
  and the poller stops as ready, also when instances with the same label that are not
  ready come later in the list.
\<close>

theorem ready_flag_never_cleared:
  "(scan_servers later True w = (Inr server_state', w') \<longrightarrow> server_state')
   \<and> (timeout < 10
        \<and> server_responses c (fetched w0) = earlier @ (server_id, s) # rest
        \<and> wf_servers (earlier @ (server_id, s) # rest) \<and> is_ready s
      \<longrightarrow> scan_servers (earlier @ (server_id, s) # rest) False (polled w0)
            = (Inr True,
               \<lparr>calls = calls w0 @ [Sleep 2, ServerList],
                stdout = stdout w0 @ scan_lines (earlier @ (server_id, s) # rest),
                fetched = Suc (fetched w0)\<rparr>)
          \<and> poll_loop c False timeout w0
            = Some (Inr (True, timeout),
                    \<lparr>calls = calls w0 @ [Sleep 2, ServerList],
                     stdout = stdout w0 @ scan_lines (earlier @ (server_id, s) # rest)
                                @ [ready_message],
                     fetched = Suc (fetched w0)\<rparr>))"
proof (rule conjI; rule impI)
  assume "scan_servers later True w = (Inr server_state', w')"
  then show server_state' by (rule scan_servers_keeps_ready)
next
  let ?d = "earlier @ (server_id, s) # rest"
  assume a: "timeout < 10 \<and> server_responses c (fetched w0) = ?d
        \<and> wf_servers ?d \<and> is_ready s"
  then have ready: "list_ex is_ready (map snd ?d)" by simp
  from a have scan: "scan_servers ?d False (polled w0)
            = (Inr True,
               \<lparr>calls = calls w0 @ [Sleep 2, ServerList],
                stdout = stdout w0 @ scan_lines ?d,
                fetched = Suc (fetched w0)\<rparr>)"
    using ready by (simp add: scan_servers_wf polled_def)
  from a ready have "poll_loop c False timeout w0
            = Some (Inr (True, timeout),
                    \<lparr>calls = calls w0 @ [Sleep 2, ServerList],
                     stdout = stdout w0 @ scan_lines (server_responses c (fetched w0))
                                @ [ready_message],
                     fetched = Suc (fetched w0)\<rparr>)"
    by (intro poll_loop_ready) simp_all
  with a scan show "scan_servers ?d False (polled w0)
            = (Inr True,
               \<lparr>calls = calls w0 @ [Sleep 2, ServerList],
                stdout = stdout w0 @ scan_lines ?d,
                fetched = Suc (fetched w0)\<rparr>)
          \<and> poll_loop c False timeout w0
            = Some (Inr (True, timeout),
                    \<lparr>calls = calls w0 @ [Sleep 2, ServerList],
                     stdout = stdout w0 @ scan_lines ?d @ [ready_message],
                     fetched = Suc (fetched w0)\<rparr>)"
    by simp
qed

theorem ready_flag_never_cleared_witness:
  "labelled pending_server \<and> \<not> is_ready pending_server
   \<and> scan_servers [(''8'', pending_server)] True start
     = (Inr True,
        \<lparr>calls = [],
         stdout = [''Expecting STATUS \"ACTIVE\" and SERVER_STATE \"OK\" but Vultr returned: pending and none''],
         fetched = 0\<rparr>)
   \<and> poll_loop
        (fixture_client (\<lambda>n. [(''7'', other_server), (''9'', ready_server), (''8'', pending_server)]))
        False 0 start
     = Some (Inr (True, 0),
        \<lparr>calls = [Sleep 2, ServerList],
         stdout = [''Expecting STATUS \"ACTIVE\" and SERVER_STATE \"OK\" but Vultr returned: pending and none'',
                   ''Server is Ready!''],
         fetched = 1\<rparr>)"
proof -
  let ?line = "''Expecting STATUS \"ACTIVE\" and SERVER_STATE \"OK\" but Vultr returned: pending and none''"
  let ?c = "fixture_client (\<lambda>n. [(''7'', other_server), (''9'', ready_server), (''8'', pending_server)])"
  have scan: "scan_servers [(''8'', pending_server)] True start
     = (Inr True, \<lparr>calls = [], stdout = [?line], fetched = 0\<rparr>)"
    by (simp add: print_line_def getitem_def not_ready_def expecting_line_def
        expecting_message_def fixtures HOSTNAME_def)
  from ready_flag_never_cleared
    [of "[(''8'', pending_server)]" start True "\<lparr>calls = [], stdout = [?line], fetched = 0\<rparr>"
        0 ?c start "[(''7'', other_server)]" "''9''" ready_server "[(''8'', pending_server)]"]
  have "poll_loop ?c False 0 start
     = Some (Inr (True, 0),
        \<lparr>calls = [Sleep 2, ServerList], stdout = [?line, ''Server is Ready!''],
         fetched = 1\<rparr>)"
    by (simp add: fixture_client_def start_def wf_servers_def scan_lines_def
        fixture_servers pending_server_line ready_message_def)
  with scan show ?thesis by (simp add: fixture_servers)
qed

end
